theory Spec2Isabelle
  imports Main
begin

section \<open>Errors\<close>

text \<open>
  Go's \<open>error\<close> values. An API status error carries a reason, which is what
  \<open>apierrors.IsNotFound\<close> and \<open>apierrors.IsInvalid\<close> inspect; every other error
  (for instance the one \<open>fmt.Errorf\<close> builds) has no reason. A Go \<open>error\<close> that may be
  \<open>nil\<close> is an \<open>error option\<close>, with \<open>None\<close> for \<open>nil\<close>.
\<close>

datatype StatusReason =
    StatusReasonNotFound
  | StatusReasonInvalid
  | StatusReasonAlreadyExists
  | StatusReasonConflict
  | StatusReasonInternalError

datatype error = StatusError StatusReason | Errorf string

definition IsNotFound :: "error option \<Rightarrow> bool" where
  "IsNotFound err = (err = Some (StatusError StatusReasonNotFound))"

definition IsInvalid :: "error option \<Rightarrow> bool" where
  "IsInvalid err = (err = Some (StatusError StatusReasonInvalid))"

text \<open>
  A lookup returns a pointer and an error, of which exactly one is set: the result is a
  sum, \<open>Inl\<close> the error. \<open>errOf\<close> reads the error component of the Go pair.
\<close>

definition errOf :: "error + 'a \<Rightarrow> error option" where
  "errOf r = (case r of Inl e \<Rightarrow> Some e | Inr _ \<Rightarrow> None)"

section \<open>Objects\<close>

text \<open>
  The object metadata that both kinds of role embed. \<open>SelfLink\<close>, \<open>UID\<close>,
  \<open>ResourceVersion\<close> and \<open>CreationTimestamp\<close> are the fields \<open>syncRole\<close> assigns; a
  timestamp is an instant, in seconds. Maps are partial functions, so that equality of
  two objects is the semantic deep equality of the source (an empty and a nil map or
  slice are equal there, and times are compared as instants).
\<close>

record ObjectMeta =
  Name :: string
  Namespace :: string
  SelfLink :: string
  UID :: string
  ResourceVersion :: string
  CreationTimestamp :: nat
  Labels :: "string \<rightharpoonup> string"
  Annotations :: "string \<rightharpoonup> string"

record PolicyRule =
  Verbs :: "string list"
  APIGroups :: "string list"
  Resources :: "string list"
  ResourceNames :: "string list"
  NonResourceURLs :: "string list"

text \<open>\<open>rbac.Role\<close>: the metadata and the rules.\<close>

record rbac_Role = ObjectMeta +
  Rules :: "PolicyRule list"

text \<open>\<open>authorizationapi.Role\<close>, the origin role: the metadata and its own rules.\<close>

record api_Role = ObjectMeta +
  originRules :: "PolicyRule list"

section \<open>The RBAC client and the controller\<close>

text \<open>
  \<open>rbacClient.Roles(namespace)\<close> offers \<open>Create\<close>, \<open>Update\<close> and \<open>Delete\<close>. The server
  behind it is any state \<open>'c\<close>; each call answers with an error or \<open>nil\<close> and leaves a new
  server state. The object a successful create or update returns is discarded by the
  controller and is not modelled.
\<close>

record 'c RoleInterface =
  Create :: "string \<Rightarrow> rbac_Role \<Rightarrow> 'c \<Rightarrow> error option \<times> 'c"
  Update :: "string \<Rightarrow> rbac_Role \<Rightarrow> 'c \<Rightarrow> error option \<times> 'c"
  Delete :: "string \<Rightarrow> string \<Rightarrow> 'c \<Rightarrow> error option \<times> 'c"

text \<open>
  The writes issued through the client, in order, are recorded beside the server state,
  the way a recording client does: namespace and object, or namespace and name.
\<close>

datatype action =
    CreateAction string rbac_Role
  | UpdateAction string rbac_Role
  | DeleteAction string string

record 'c rbac =
  server :: 'c
  actions :: "action list"

text \<open>
  The controller: the fields of \<open>OriginRoleToRBACRoleController\<close> that \<open>syncRole\<close>
  reads, and the functions of other packages that it calls, taken as parameters since
  their code is elsewhere: \<open>cache.SplitMetaNamespaceKey\<close>,
  \<open>authorizationapi.Convert_api_Role_To_rbac_Role\<close>, the package's \<open>cloner\<close> and
  \<open>controller.KeyFunc\<close>. A lister is the function from namespace and name to the result
  of \<open>Roles(namespace).Get(name)\<close>.
\<close>

record 'c controller =
  rbacClient :: "'c RoleInterface"
  rbacLister :: "string \<Rightarrow> string \<Rightarrow> error + rbac_Role"
  originLister :: "string \<Rightarrow> string \<Rightarrow> error + api_Role"
  SplitMetaNamespaceKey :: "string \<Rightarrow> error + string \<times> string"
  Convert_api_Role_To_rbac_Role :: "api_Role \<Rightarrow> error + rbac_Role"
  cloner :: "rbac_Role \<Rightarrow> error option"
  KeyFunc :: "api_Role \<Rightarrow> error + string"

definition rbacClient_Create ::
  "'c controller \<Rightarrow> string \<Rightarrow> rbac_Role \<Rightarrow> 'c rbac \<Rightarrow> error option \<times> 'c rbac" where
  "rbacClient_Create c namespace role w =
     (case Create (rbacClient c) namespace role (server w) of
        (err, sv) \<Rightarrow> (err, \<lparr>server = sv, actions = actions w @ [CreateAction namespace role]\<rparr>))"

definition rbacClient_Update ::
  "'c controller \<Rightarrow> string \<Rightarrow> rbac_Role \<Rightarrow> 'c rbac \<Rightarrow> error option \<times> 'c rbac" where
  "rbacClient_Update c namespace role w =
     (case Update (rbacClient c) namespace role (server w) of
        (err, sv) \<Rightarrow> (err, \<lparr>server = sv, actions = actions w @ [UpdateAction namespace role]\<rparr>))"

definition rbacClient_Delete ::
  "'c controller \<Rightarrow> string \<Rightarrow> string \<Rightarrow> 'c rbac \<Rightarrow> error option \<times> 'c rbac" where
  "rbacClient_Delete c namespace name w =
     (case Delete (rbacClient c) namespace name (server w) of
        (err, sv) \<Rightarrow> (err, \<lparr>server = sv, actions = actions w @ [DeleteAction namespace name]\<rparr>))"

text \<open>
  Modelled from the spec: \<open>rbac.DeepCopy_rbac_Role\<close> is generated code of another
  package. The spec has the candidate "materialized as an independent copy": the copy
  is the value it was given, unless the cloner reports an error.
\<close>

definition DeepCopy_rbac_Role :: "(rbac_Role \<Rightarrow> error option) \<Rightarrow> rbac_Role \<Rightarrow> error + rbac_Role" where
  "DeepCopy_rbac_Role cl r = (case cl r of Some err \<Rightarrow> Inl err | None \<Rightarrow> Inr r)"

section \<open>syncRole\<close>

text \<open>
  The assignments of lines 102 to 105: the candidate takes the existing role's
  \<open>SelfLink\<close>, \<open>UID\<close>, \<open>ResourceVersion\<close> and \<open>CreationTimestamp\<close>.
\<close>

definition stomp :: "rbac_Role \<Rightarrow> rbac_Role \<Rightarrow> rbac_Role" where
  "stomp equivalentRole rbacRole =
     equivalentRole\<lparr>SelfLink := SelfLink rbacRole,
                    UID := UID rbacRole,
                    ResourceVersion := ResourceVersion rbacRole,
                    CreationTimestamp := CreationTimestamp rbacRole\<rparr>"

text \<open>
  \<open>syncRole\<close> returns its error (\<open>None\<close> for \<open>nil\<close>) and the client's state. The two
  branches marked as not reached stand where the source reads a pointer that a failed
  lookup would have left \<open>nil\<close>: every failed lookup has returned, or has taken the
  create or delete branch, before.
\<close>

definition syncRole :: "'c controller \<Rightarrow> string \<Rightarrow> 'c rbac \<Rightarrow> error option \<times> 'c rbac" where
  "syncRole c key w =
     (case SplitMetaNamespaceKey c key of
        Inl err \<Rightarrow> (Some err, w)
      | Inr (namespace, name) \<Rightarrow>
         (let rbacGet = rbacLister c namespace name; rbacErr = errOf rbacGet in
          if \<not> IsNotFound rbacErr \<and> rbacErr \<noteq> None then (rbacErr, w)
          else
           (let originGet = originLister c namespace name; originErr = errOf originGet in
            if \<not> IsNotFound originErr \<and> originErr \<noteq> None then (originErr, w)
            else if IsNotFound rbacErr \<and> IsNotFound originErr then (None, w)
            else if IsNotFound originErr then rbacClient_Delete c namespace name w
            else
             (case originGet of
                Inl e \<Rightarrow> (Some e, w) \<comment> \<open>not reached\<close>
              | Inr originRole \<Rightarrow>
                 (case Convert_api_Role_To_rbac_Role c originRole of
                    Inl err \<Rightarrow> (Some err, w)
                  | Inr convertedRole \<Rightarrow>
                     (case DeepCopy_rbac_Role (cloner c) convertedRole of
                        Inl err \<Rightarrow> (Some err, w)
                      | Inr equivalentRole \<Rightarrow>
                         if IsNotFound rbacErr
                         then rbacClient_Create c namespace (equivalentRole\<lparr>ResourceVersion := ''''\<rparr>) w
                         else
                          (case rbacGet of
                             Inl e \<Rightarrow> (Some e, w) \<comment> \<open>not reached\<close>
                           | Inr rbacRole \<Rightarrow>
                              (let equivalentRole = stomp equivalentRole rbacRole in
                               if equivalentRole = rbacRole then (None, w)
                               else
                                (case rbacClient_Update c namespace equivalentRole w of
                                   (err, w1) \<Rightarrow>
                                     if IsInvalid err
                                     then (err, snd (rbacClient_Delete c namespace name w1))
                                     else (err, w1))))))))))"

section \<open>The event handlers\<close>

text \<open>
  \<open>authorizationapi.Policy\<close>, the container: \<open>Roles\<close> is a Go map from a name to a
  role pointer. A \<open>range\<close> over it visits its entries in an order the language does not
  fix; the list is the entries in the order of one iteration.
\<close>

record Policy = ObjectMeta +
  Roles :: "(string \<times> api_Role) list"

text \<open>
  The \<open>interface{}\<close> an informer hands to a handler: a policy pointer, a tombstone
  \<open>cache.DeletedFinalStateUnknown{Key, Obj}\<close>, the \<open>nil\<close> interface, or a value of some
  other type.
\<close>

datatype obj =
    PolicyObj Policy
  | DeletedFinalStateUnknown string obj
  | NilObj
  | OtherObj string

text \<open>
  The two-valued type assertions \<open>v, ok := obj.(T)\<close>: when the assertion fails, \<open>v\<close> is
  the zero value of \<open>T\<close>, the \<open>nil\<close> pointer (\<open>None\<close>) or the tombstone with an empty key
  and a \<open>nil\<close> object.
\<close>

definition assert_Policy :: "obj \<Rightarrow> Policy option \<times> bool" where
  "assert_Policy v = (case v of PolicyObj p \<Rightarrow> (Some p, True) | _ \<Rightarrow> (None, False))"

definition assert_DeletedFinalStateUnknown :: "obj \<Rightarrow> (string \<times> obj) \<times> bool" where
  "assert_DeletedFinalStateUnknown v =
     (case v of DeletedFinalStateUnknown k x \<Rightarrow> ((k, x), True) | _ \<Rightarrow> (([], NilObj), False))"

text \<open>
  What the handlers change: the controller's \<open>originIndexer\<close>, its \<open>queue\<close>, and the
  errors given to \<open>utilruntime.HandleError\<close>.
\<close>

record ingester =
  originIndexer :: "string \<rightharpoonup> api_Role"
  queue :: "string list"
  handled :: "error list"

text \<open>
  Modelled from the spec: \<open>cache.MetaNamespaceKeyFunc\<close>, the key function the indexer
  is built with (line 35), is code of another package. The spec's key encoding is
  "namespace/name" for namespaced entities and "name" otherwise.
\<close>

definition MetaNamespaceKeyFunc :: "'a ObjectMeta_scheme \<Rightarrow> string" where
  "MetaNamespaceKeyFunc m =
     (if Namespace m \<noteq> [] then Namespace m @ ''/'' @ Name m else Name m)"

text \<open>
  Modelled from the spec: the indexer and the lister built on it (line 40) are code of
  other packages. The spec's Indexed Cache is a keyed store that "supports upsert and
  namespaced lookup", and not-found is a distinguishable result of the lookup.
\<close>

definition Indexer_Add :: "(string \<rightharpoonup> api_Role) \<Rightarrow> api_Role \<Rightarrow> (string \<rightharpoonup> api_Role)" where
  "Indexer_Add items v = items(MetaNamespaceKeyFunc v \<mapsto> v)"

definition NewRoleLister :: "(string \<rightharpoonup> api_Role) \<Rightarrow> string \<Rightarrow> string \<Rightarrow> error + api_Role" where
  "NewRoleLister items namespace name =
     (case items (namespace @ ''/'' @ name) of
        None \<Rightarrow> Inl (StatusError StatusReasonNotFound)
      | Some r \<Rightarrow> Inr r)"

text \<open>
  Modelled from the spec: the work queue is an external contract; enqueuing a key that
  is already pending leaves one delivery.
\<close>

definition queue_Add :: "string list \<Rightarrow> string \<Rightarrow> string list" where
  "queue_Add q key = (if key \<in> set q then q else q @ [key])"

definition HandleError :: "error \<Rightarrow> ingester \<Rightarrow> ingester" where
  "HandleError err s = s\<lparr>handled := handled s @ [err]\<rparr>"

text \<open>
  The body of the \<open>range\<close> loop, the same in the three handlers: add the role to the
  indexer, compute its key, and enqueue it, or report the error and go on.
\<close>

definition loopBody :: "'c controller \<Rightarrow> ingester \<Rightarrow> api_Role \<Rightarrow> ingester" where
  "loopBody c s originObj =
     (let s1 = s\<lparr>originIndexer := Indexer_Add (originIndexer s) originObj\<rparr> in
      case KeyFunc c originObj of
        Inl err \<Rightarrow> HandleError err s1
      | Inr key \<Rightarrow> s1\<lparr>queue := queue_Add (queue s1) key\<rparr>)"

definition rangeRoles :: "'c controller \<Rightarrow> Policy \<Rightarrow> ingester \<Rightarrow> ingester" where
  "rangeRoles c originContainerObj s = foldl (loopBody c) s (map snd (Roles originContainerObj))"

text \<open>
  A handler returns, or panics: on a failed one-valued type assertion, or on reading a
  field through a \<open>nil\<close> pointer. Both carry the state reached.
\<close>

datatype outcome = Return ingester | Panic ingester

definition AddFunc :: "'c controller \<Rightarrow> obj \<Rightarrow> ingester \<Rightarrow> outcome" where
  "AddFunc c v s =
     (case v of
        PolicyObj originContainerObj \<Rightarrow> Return (rangeRoles c originContainerObj s)
      | _ \<Rightarrow> Panic s)"

definition UpdateFunc :: "'c controller \<Rightarrow> obj \<Rightarrow> obj \<Rightarrow> ingester \<Rightarrow> outcome" where
  "UpdateFunc c old cur s =
     (case cur of
        PolicyObj originContainerObj \<Rightarrow> Return (rangeRoles c originContainerObj s)
      | _ \<Rightarrow> Panic s)"

definition DeleteFunc :: "'c controller \<Rightarrow> obj \<Rightarrow> ingester \<Rightarrow> outcome" where
  "DeleteFunc c v s =
     (let (originContainerObj, ok) = assert_Policy v;
          (originContainerObj, s) =
            (if \<not> ok then
               (let (tombstone, ok) = assert_DeletedFinalStateUnknown v;
                    s = (if \<not> ok
                         then HandleError (Errorf ''Couldn't get object from tombstone'') s
                         else s);
                    (originContainerObj, ok) = assert_Policy (snd tombstone);
                    s = (if \<not> ok
                         then HandleError
                                (Errorf ''Tombstone contained object that is not a runtime.Object'') s
                         else s)
                in (originContainerObj, s))
             else (originContainerObj, s))
      in case originContainerObj of
           None \<Rightarrow> Panic s
         | Some p \<Rightarrow> Return (rangeRoles c p s))"

section \<open>Concrete scenarios\<close>

text \<open>
  The inputs of the spec's scenarios: the rules \<open>R1\<close> and \<open>R2\<close>, a rule without verbs
  (which role validation rejects), the origin role \<open>a/r1\<close>, its conversion, and the RBAC
  role \<open>a/r1\<close> as the store holds it, with the identity metadata the store gave it.
\<close>

definition R1 :: PolicyRule where
  "R1 = \<lparr>Verbs = [''get''], APIGroups = [[]], Resources = [''pods''],
         ResourceNames = [], NonResourceURLs = []\<rparr>"

definition R2 :: PolicyRule where
  "R2 = \<lparr>Verbs = [''list''], APIGroups = [[]], Resources = [''pods''],
         ResourceNames = [], NonResourceURLs = []\<rparr>"

definition noVerbs :: PolicyRule where
  "noVerbs = \<lparr>Verbs = [], APIGroups = [[]], Resources = [''pods''],
              ResourceNames = [], NonResourceURLs = []\<rparr>"

definition sourceRole :: "PolicyRule list \<Rightarrow> api_Role" where
  "sourceRole rs =
     \<lparr>Name = ''r1'', Namespace = ''a'', SelfLink = [], UID = [], ResourceVersion = ''7'',
      CreationTimestamp = 0, Labels = Map.empty, Annotations = Map.empty, originRules = rs\<rparr>"

definition converted :: "PolicyRule list \<Rightarrow> rbac_Role" where
  "converted rs =
     \<lparr>Name = ''r1'', Namespace = ''a'', SelfLink = [], UID = [], ResourceVersion = ''7'',
      CreationTimestamp = 0, Labels = Map.empty, Annotations = Map.empty, Rules = rs\<rparr>"

definition derivedRole :: "PolicyRule list \<Rightarrow> rbac_Role" where
  "derivedRole rs =
     \<lparr>Name = ''r1'', Namespace = ''a'', SelfLink = ''/roles/a/r1'', UID = ''u1'',
      ResourceVersion = ''5'', CreationTimestamp = 100, Labels = Map.empty,
      Annotations = Map.empty, Rules = rs\<rparr>"

text \<open>A conversion that copies the metadata and the rules, and one that always fails.\<close>

definition convertRole :: "api_Role \<Rightarrow> error + rbac_Role" where
  "convertRole r =
     Inr \<lparr>Name = Name r, Namespace = Namespace r, SelfLink = SelfLink r, UID = UID r,
          ResourceVersion = ResourceVersion r, CreationTimestamp = CreationTimestamp r,
          Labels = Labels r, Annotations = Annotations r, Rules = originRules r\<rparr>"

definition failingConvert :: "api_Role \<Rightarrow> error + rbac_Role" where
  "failingConvert r = Inl (Errorf ''conversion failed'')"

text \<open>
  A key parser: the key is split at every slash; one part is a name without namespace,
  two parts are namespace and name, anything else is an error.
\<close>

fun splitSlash :: "string \<Rightarrow> string list" where
  "splitSlash [] = [[]]"
| "splitSlash (x # xs) =
     (if x = CHR ''/'' then [] # splitSlash xs
      else (case splitSlash xs of [] \<Rightarrow> [[x]] | p # ps \<Rightarrow> (x # p) # ps))"

definition splitKey :: "string \<Rightarrow> error + string \<times> string" where
  "splitKey key =
     (case splitSlash key of
        [name] \<Rightarrow> Inr ([], name)
      | [namespace, name] \<Rightarrow> Inr (namespace, name)
      | _ \<Rightarrow> Inl (Errorf ''unexpected key format''))"

text \<open>
  An in-memory store of RBAC roles by key. Create refuses an existing key, update and
  delete a missing one; update rejects as invalid a role that has a rule without verbs.
\<close>

definition memoryRoles :: "(string \<rightharpoonup> rbac_Role) RoleInterface" where
  "memoryRoles =
     \<lparr>Create = (\<lambda>namespace role st.
         case st (namespace @ ''/'' @ Name role) of
           Some _ \<Rightarrow> (Some (StatusError StatusReasonAlreadyExists), st)
         | None \<Rightarrow> (None, st(namespace @ ''/'' @ Name role \<mapsto> role))),
      Update = (\<lambda>namespace role st.
         case st (namespace @ ''/'' @ Name role) of
           None \<Rightarrow> (Some (StatusError StatusReasonNotFound), st)
         | Some _ \<Rightarrow>
             if [] \<in> set (map Verbs (Rules role))
             then (Some (StatusError StatusReasonInvalid), st)
             else (None, st(namespace @ ''/'' @ Name role \<mapsto> role))),
      Delete = (\<lambda>namespace name st.
         case st (namespace @ ''/'' @ name) of
           None \<Rightarrow> (Some (StatusError StatusReasonNotFound), st)
         | Some _ \<Rightarrow> (None, st(namespace @ ''/'' @ name := None)))\<rparr>"

definition emptyStore :: "(string \<rightharpoonup> rbac_Role) rbac" where
  "emptyStore = \<lparr>server = Map.empty, actions = []\<rparr>"

definition storeWith :: "rbac_Role \<Rightarrow> (string \<rightharpoonup> rbac_Role) rbac" where
  "storeWith r = \<lparr>server = [''a/r1'' \<mapsto> r], actions = []\<rparr>"

text \<open>The store after the create of scenario A, before it assigns any metadata.\<close>

definition afterCreate :: "(string \<rightharpoonup> rbac_Role) rbac" where
  "afterCreate =
     \<lparr>server = [''a/r1'' \<mapsto> (converted [R1])\<lparr>ResourceVersion := []\<rparr>],
      actions = [CreateAction ''a'' ((converted [R1])\<lparr>ResourceVersion := []\<rparr>)]\<rparr>"

text \<open>
  A controller over that store: the RBAC lister reads the informer's cache \<open>cached\<close>,
  the origin lister is the lister built on the indexer \<open>items\<close>, as in line 40.
\<close>

definition testController ::
  "(string \<rightharpoonup> api_Role) \<Rightarrow> (string \<rightharpoonup> rbac_Role) \<Rightarrow> (string \<rightharpoonup> rbac_Role) controller" where
  "testController items cached =
     \<lparr>rbacClient = memoryRoles,
      rbacLister = (\<lambda>namespace name.
         case cached (namespace @ ''/'' @ name) of
           None \<Rightarrow> Inl (StatusError StatusReasonNotFound)
         | Some r \<Rightarrow> Inr r),
      originLister = NewRoleLister items,
      SplitMetaNamespaceKey = splitKey,
      Convert_api_Role_To_rbac_Role = convertRole,
      cloner = (\<lambda>_. None),
      KeyFunc = (\<lambda>r. Inr (MetaNamespaceKeyFunc r))\<rparr>"

text \<open>
  Scenario A: the source has the role, the derived store does not. B: both have it, with
  the same rules. C: only the derived store has it. D: the source's rules have changed.
  E: the source's rules have changed to rules that the store rejects as invalid.
\<close>

definition scenarioA :: "(string \<rightharpoonup> rbac_Role) controller" where
  "scenarioA = testController [''a/r1'' \<mapsto> sourceRole [R1]] Map.empty"

definition scenarioB :: "(string \<rightharpoonup> rbac_Role) controller" where
  "scenarioB = testController [''a/r1'' \<mapsto> sourceRole [R1]] [''a/r1'' \<mapsto> derivedRole [R1]]"

definition scenarioC :: "(string \<rightharpoonup> rbac_Role) controller" where
  "scenarioC = testController Map.empty [''a/r1'' \<mapsto> derivedRole [R1]]"

definition scenarioD :: "(string \<rightharpoonup> rbac_Role) controller" where
  "scenarioD = testController [''a/r1'' \<mapsto> sourceRole [R1, R2]] [''a/r1'' \<mapsto> derivedRole [R1]]"

definition scenarioE :: "(string \<rightharpoonup> rbac_Role) controller" where
  "scenarioE = testController [''a/r1'' \<mapsto> sourceRole [noVerbs]] [''a/r1'' \<mapsto> derivedRole [R1]]"

text \<open>A policy of namespace \<open>a\<close> with the given roles, and an indexer that holds \<open>a/r1\<close>.\<close>

definition policyWith :: "(string \<times> api_Role) list \<Rightarrow> Policy" where
  "policyWith rs =
     \<lparr>Name = ''default'', Namespace = ''a'', SelfLink = [], UID = ''p1'', ResourceVersion = ''3'',
      CreationTimestamp = 50, Labels = Map.empty, Annotations = Map.empty, Roles = rs\<rparr>"

definition cacheWith :: "api_Role \<Rightarrow> ingester" where
  "cacheWith r = \<lparr>originIndexer = [''a/r1'' \<mapsto> r], queue = [], handled = []\<rparr>"

section \<open>Unfolding and evaluation\<close>

lemmas sync_defs = syncRole_def Let_def errOf_def IsNotFound_def IsInvalid_def
  DeepCopy_rbac_Role_def rbacClient_Create_def rbacClient_Update_def rbacClient_Delete_def

lemmas handler_defs = DeleteFunc_def UpdateFunc_def AddFunc_def rangeRoles_def loopBody_def
  Indexer_Add_def MetaNamespaceKeyFunc_def queue_Add_def HandleError_def assert_Policy_def
  assert_DeletedFinalStateUnknown_def Let_def

lemma splitKey_a_r1: "splitKey ''a/r1'' = Inr (''a'', ''r1'')"
  by (simp add: splitKey_def)

lemma splitKey_a_b_c: "splitKey ''a/b/c'' = Inl (Errorf ''unexpected key format'')"
  by (simp add: splitKey_def)

lemmas scenario_defs = scenarioA_def scenarioB_def scenarioC_def scenarioD_def scenarioE_def
  testController_def splitKey_a_r1 splitKey_a_b_c NewRoleLister_def convertRole_def
  sourceRole_def derivedRole_def converted_def memoryRoles_def emptyStore_def storeWith_def
  afterCreate_def policyWith_def cacheWith_def failingConvert_def stomp_def
  R1_def R2_def noVerbs_def

lemma stomp_stomp: "stomp (stomp r a) b = stomp r b"
  by (simp add: stomp_def)

lemma stomp_ResourceVersion: "stomp (r\<lparr>ResourceVersion := v\<rparr>) b = stomp r b"
  by (simp add: stomp_def)

section \<open>The claims\<close>

text \<open>
  C1. A role that disappears, because its policy is deleted or because an update of the
  policy no longer lists it, should be enqueued and be gone from the origin lister, so
  that \<open>syncRole\<close> deletes the RBAC role. The handlers do not do that. \<open>DeleteFunc\<close>
  enqueues the key, but calls \<open>originIndexer.Add\<close> on the role of the deleted policy:
  the origin lister still returns the role, and \<open>syncRole\<close> finds both roles equal and
  writes nothing. \<open>UpdateFunc\<close> never reads the old policy: the role that the new
  policy has dropped stays in the indexer and its key is not enqueued.
\<close>

theorem handlers_keep_disappeared_role:
  "DeleteFunc scenarioB (PolicyObj (policyWith [(''r1'', sourceRole [R1])]))
       (cacheWith (sourceRole [R1]))
     = Return \<lparr>originIndexer = [''a/r1'' \<mapsto> sourceRole [R1]], queue = [''a/r1''], handled = []\<rparr>
   \<and> UpdateFunc scenarioB (PolicyObj (policyWith [(''r1'', sourceRole [R1])]))
        (PolicyObj (policyWith [])) (cacheWith (sourceRole [R1]))
     = Return \<lparr>originIndexer = [''a/r1'' \<mapsto> sourceRole [R1]], queue = [], handled = []\<rparr>
   \<and> originLister scenarioB = NewRoleLister [''a/r1'' \<mapsto> sourceRole [R1]]
   \<and> originLister scenarioB ''a'' ''r1'' = Inr (sourceRole [R1])
   \<and> syncRole scenarioB ''a/r1'' (storeWith (derivedRole [R1]))
     = (None, storeWith (derivedRole [R1]))"
  by (simp add: scenario_defs sync_defs handler_defs)

text \<open>
  C2. When both roles exist, the candidate differs from the existing RBAC role and the
  update is rejected as invalid, \<open>syncRole\<close> issues the update and then a delete of the
  same namespace and name, and returns the update's error: the result does not depend
  on what the delete answers, whose only trace is the server state it leaves.
\<close>

theorem syncRole_invalid_update_self_heal:
  assumes "SplitMetaNamespaceKey c key = Inr (namespace, name)"
    and "rbacLister c namespace name = Inr rbacRole"
    and "originLister c namespace name = Inr originRole"
    and "Convert_api_Role_To_rbac_Role c originRole = Inr convertedRole"
    and "cloner c convertedRole = None"
    and "stomp convertedRole rbacRole \<noteq> rbacRole"
    and "Update (rbacClient c) namespace (stomp convertedRole rbacRole) (server w) = (err, sv)"
    and "IsInvalid err"
  shows "fst (syncRole c key w) = err
       \<and> actions (snd (syncRole c key w))
           = actions w @ [UpdateAction namespace (stomp convertedRole rbacRole),
                          DeleteAction namespace name]
       \<and> server (snd (syncRole c key w)) = snd (Delete (rbacClient c) namespace name sv)"
  using assms by (auto simp: sync_defs split: prod.splits)

theorem syncRole_invalid_update_self_heal_witness:
  "SplitMetaNamespaceKey scenarioE ''a/r1'' = Inr (''a'', ''r1'')
   \<and> rbacLister scenarioE ''a'' ''r1'' = Inr (derivedRole [R1])
   \<and> originLister scenarioE ''a'' ''r1'' = Inr (sourceRole [noVerbs])
   \<and> Convert_api_Role_To_rbac_Role scenarioE (sourceRole [noVerbs]) = Inr (converted [noVerbs])
   \<and> cloner scenarioE (converted [noVerbs]) = None
   \<and> stomp (converted [noVerbs]) (derivedRole [R1]) \<noteq> derivedRole [R1]
   \<and> Update (rbacClient scenarioE) ''a'' (stomp (converted [noVerbs]) (derivedRole [R1]))
        (server (storeWith (derivedRole [R1])))
      = (Some (StatusError StatusReasonInvalid), server (storeWith (derivedRole [R1])))
   \<and> IsInvalid (Some (StatusError StatusReasonInvalid))
   \<and> fst (syncRole scenarioE ''a/r1'' (storeWith (derivedRole [R1])))
      = Some (StatusError StatusReasonInvalid)
   \<and> actions (snd (syncRole scenarioE ''a/r1'' (storeWith (derivedRole [R1]))))
      = [UpdateAction ''a'' (derivedRole [noVerbs]), DeleteAction ''a'' ''r1'']
   \<and> server (snd (syncRole scenarioE ''a/r1'' (storeWith (derivedRole [R1])))) ''a/r1'' = None"
  using syncRole_invalid_update_self_heal
    [where c = scenarioE and key = "''a/r1''" and namespace = "''a''" and name = "''r1''"
      and rbacRole = "derivedRole [R1]" and originRole = "sourceRole [noVerbs]"
      and convertedRole = "converted [noVerbs]" and w = "storeWith (derivedRole [R1])"
      and err = "Some (StatusError StatusReasonInvalid)"
      and sv = "server (storeWith (derivedRole [R1]))"]
  by (simp add: scenario_defs IsInvalid_def)

text \<open>
  C3. Every update that \<open>syncRole\<close> issues writes the converted origin role with the
  four identity fields of the RBAC role that the lister returned: the written object's
  \<open>UID\<close>, \<open>ResourceVersion\<close>, \<open>CreationTimestamp\<close> and \<open>SelfLink\<close> are the existing
  role's, whatever the conversion had put there.
\<close>

theorem syncRole_update_preserves_identity:
  assumes "actions (snd (syncRole c key w)) = actions w @ issued"
    and "UpdateAction ns written \<in> set issued"
  shows "\<exists>name rbacRole originRole convertedRole.
           SplitMetaNamespaceKey c key = Inr (ns, name)
         \<and> rbacLister c ns name = Inr rbacRole
         \<and> originLister c ns name = Inr originRole
         \<and> Convert_api_Role_To_rbac_Role c originRole = Inr convertedRole
         \<and> written = stomp convertedRole rbacRole
         \<and> written \<noteq> rbacRole
         \<and> UID written = UID rbacRole
         \<and> ResourceVersion written = ResourceVersion rbacRole
         \<and> CreationTimestamp written = CreationTimestamp rbacRole
         \<and> SelfLink written = SelfLink rbacRole"
  using assms
  by (auto simp: sync_defs stomp_def split: sum.splits prod.splits if_splits option.splits)

theorem syncRole_update_preserves_identity_witness:
  "actions (snd (syncRole scenarioD ''a/r1'' (storeWith (derivedRole [R1]))))
      = actions (storeWith (derivedRole [R1])) @ [UpdateAction ''a'' (derivedRole [R1, R2])]
   \<and> UpdateAction ''a'' (derivedRole [R1, R2]) \<in> set [UpdateAction ''a'' (derivedRole [R1, R2])]
   \<and> rbacLister scenarioD ''a'' ''r1'' = Inr (derivedRole [R1])
   \<and> derivedRole [R1, R2] = stomp (converted [R1, R2]) (derivedRole [R1])
   \<and> UID (derivedRole [R1, R2]) = UID (derivedRole [R1])
   \<and> ResourceVersion (derivedRole [R1, R2]) = ResourceVersion (derivedRole [R1])
   \<and> CreationTimestamp (derivedRole [R1, R2]) = CreationTimestamp (derivedRole [R1])
   \<and> SelfLink (derivedRole [R1, R2]) = SelfLink (derivedRole [R1])"
  using syncRole_update_preserves_identity
    [where c = scenarioD and key = "''a/r1''" and w = "storeWith (derivedRole [R1])"
      and issued = "[UpdateAction ''a'' (derivedRole [R1, R2])]" and ns = "''a''"
      and written = "derivedRole [R1, R2]"]
  by (simp add: scenario_defs sync_defs)

text \<open>
  C4. When both roles exist and the converted candidate, with its identity fields
  overwritten by the existing RBAC role's, equals the existing role, \<open>syncRole\<close> returns
  success and leaves the client untouched: no create, update or delete. Consequently a
  second reconcile after a successful one writes nothing: if the first call succeeded,
  and the RBAC lister then returns what the store holds (the role that was there, when
  nothing was written; otherwise the written object, in which the store may have set
  the four identity fields), the second call returns success with no write.
\<close>

theorem syncRole_equal_is_noop:
  assumes "SplitMetaNamespaceKey c key = Inr (namespace, name)"
    and "originLister c namespace name = Inr originRole"
    and "Convert_api_Role_To_rbac_Role c originRole = Inr convertedRole"
    and "cloner c convertedRole = None"
  shows "(rbacLister c namespace name = Inr rbacRole \<and> stomp convertedRole rbacRole = rbacRole
            \<longrightarrow> syncRole c key w = (None, w))
       \<and> (syncRole c key w = (None, w1) \<and> actions w1 = actions w @ issued
            \<and> later namespace name = Inr stored
            \<and> (issued = [] \<and> later namespace name = rbacLister c namespace name
                \<or> (\<exists>written. (issued = [CreateAction namespace written]
                               \<or> issued = [UpdateAction namespace written])
                             \<and> stomp written stored = stored))
            \<longrightarrow> syncRole (c\<lparr>rbacLister := later\<rparr>) key w1 = (None, w1))"
proof (intro conjI impI)
  assume "rbacLister c namespace name = Inr rbacRole \<and> stomp convertedRole rbacRole = rbacRole"
  with assms show "syncRole c key w = (None, w)"
    by (simp add: sync_defs)
next
  assume first: "syncRole c key w = (None, w1) \<and> actions w1 = actions w @ issued
            \<and> later namespace name = Inr stored
            \<and> (issued = [] \<and> later namespace name = rbacLister c namespace name
                \<or> (\<exists>written. (issued = [CreateAction namespace written]
                               \<or> issued = [UpdateAction namespace written])
                             \<and> stomp written stored = stored))"
  have "stomp convertedRole stored = stored"
    using first assms
    by (auto simp: sync_defs stomp_stomp stomp_ResourceVersion
             split: sum.splits prod.splits if_splits)
  with first assms show "syncRole (c\<lparr>rbacLister := later\<rparr>) key w1 = (None, w1)"
    by (simp add: sync_defs)
qed

theorem syncRole_equal_is_noop_witness:
  "SplitMetaNamespaceKey scenarioB ''a/r1'' = Inr (''a'', ''r1'')
   \<and> originLister scenarioB ''a'' ''r1'' = Inr (sourceRole [R1])
   \<and> Convert_api_Role_To_rbac_Role scenarioB (sourceRole [R1]) = Inr (converted [R1])
   \<and> cloner scenarioB (converted [R1]) = None
   \<and> rbacLister scenarioB ''a'' ''r1'' = Inr (derivedRole [R1])
   \<and> stomp (converted [R1]) (derivedRole [R1]) = derivedRole [R1]
   \<and> syncRole scenarioB ''a/r1'' (storeWith (derivedRole [R1])) = (None, storeWith (derivedRole [R1]))
   \<and> SplitMetaNamespaceKey scenarioA ''a/r1'' = Inr (''a'', ''r1'')
   \<and> originLister scenarioA ''a'' ''r1'' = Inr (sourceRole [R1])
   \<and> Convert_api_Role_To_rbac_Role scenarioA (sourceRole [R1]) = Inr (converted [R1])
   \<and> cloner scenarioA (converted [R1]) = None
   \<and> syncRole scenarioA ''a/r1'' emptyStore = (None, afterCreate)
   \<and> actions afterCreate
      = actions emptyStore @ [CreateAction ''a'' ((converted [R1])\<lparr>ResourceVersion := []\<rparr>)]
   \<and> stomp ((converted [R1])\<lparr>ResourceVersion := []\<rparr>) (derivedRole [R1]) = derivedRole [R1]
   \<and> syncRole (scenarioA\<lparr>rbacLister := rbacLister scenarioB\<rparr>) ''a/r1'' afterCreate
      = (None, afterCreate)"
  using syncRole_equal_is_noop
    [where c = scenarioB and key = "''a/r1''" and namespace = "''a''" and name = "''r1''"
      and originRole = "sourceRole [R1]" and convertedRole = "converted [R1]"
      and rbacRole = "derivedRole [R1]" and w = "storeWith (derivedRole [R1])"]
    syncRole_equal_is_noop
    [where c = scenarioA and key = "''a/r1''" and namespace = "''a''" and name = "''r1''"
      and originRole = "sourceRole [R1]" and convertedRole = "converted [R1]"
      and w = emptyStore and ?w1.0 = afterCreate
      and issued = "[CreateAction ''a'' ((converted [R1])\<lparr>ResourceVersion := []\<rparr>)]"
      and later = "rbacLister scenarioB" and stored = "derivedRole [R1]"]
  by (simp add: scenario_defs sync_defs)

text \<open>
  C5. When the origin role exists and the RBAC lookup answers NotFound, \<open>syncRole\<close>
  issues one create, of the converted origin role with an empty \<open>ResourceVersion\<close>, and
  returns what that create returns.
\<close>

theorem syncRole_creates_when_missing:
  assumes "SplitMetaNamespaceKey c key = Inr (namespace, name)"
    and "rbacLister c namespace name = Inl (StatusError StatusReasonNotFound)"
    and "originLister c namespace name = Inr originRole"
    and "Convert_api_Role_To_rbac_Role c originRole = Inr convertedRole"
    and "cloner c convertedRole = None"
  shows "fst (syncRole c key w)
           = fst (Create (rbacClient c) namespace (convertedRole\<lparr>ResourceVersion := []\<rparr>) (server w))
       \<and> server (snd (syncRole c key w))
           = snd (Create (rbacClient c) namespace (convertedRole\<lparr>ResourceVersion := []\<rparr>) (server w))
       \<and> actions (snd (syncRole c key w))
           = actions w @ [CreateAction namespace (convertedRole\<lparr>ResourceVersion := []\<rparr>)]
       \<and> ResourceVersion (convertedRole\<lparr>ResourceVersion := []\<rparr>) = []"
  using assms by (auto simp: sync_defs split: prod.splits)

theorem syncRole_creates_when_missing_witness:
  "SplitMetaNamespaceKey scenarioA ''a/r1'' = Inr (''a'', ''r1'')
   \<and> rbacLister scenarioA ''a'' ''r1'' = Inl (StatusError StatusReasonNotFound)
   \<and> originLister scenarioA ''a'' ''r1'' = Inr (sourceRole [R1])
   \<and> Convert_api_Role_To_rbac_Role scenarioA (sourceRole [R1]) = Inr (converted [R1])
   \<and> cloner scenarioA (converted [R1]) = None
   \<and> fst (syncRole scenarioA ''a/r1'' emptyStore) = None
   \<and> actions (snd (syncRole scenarioA ''a/r1'' emptyStore))
      = [CreateAction ''a'' ((converted [R1])\<lparr>ResourceVersion := []\<rparr>)]"
  using syncRole_creates_when_missing
    [where c = scenarioA and key = "''a/r1''" and namespace = "''a''" and name = "''r1''"
      and originRole = "sourceRole [R1]" and convertedRole = "converted [R1]" and w = emptyStore]
  by (simp add: scenario_defs)

text \<open>
  C6, as amended. When the origin role is absent and the RBAC role present, \<open>syncRole\<close>
  issues one delete for that namespace and name and returns whatever the delete
  returns, a NotFound included: line 80 returns the delete's result as it is.
\<close>

theorem syncRole_orphan_delete_returns_delete_result:
  assumes "SplitMetaNamespaceKey c key = Inr (namespace, name)"
    and "rbacLister c namespace name = Inr rbacRole"
    and "originLister c namespace name = Inl (StatusError StatusReasonNotFound)"
  shows "fst (syncRole c key w) = fst (Delete (rbacClient c) namespace name (server w))
       \<and> server (snd (syncRole c key w)) = snd (Delete (rbacClient c) namespace name (server w))
       \<and> actions (snd (syncRole c key w)) = actions w @ [DeleteAction namespace name]"
  using assms by (auto simp: sync_defs split: prod.splits)

theorem syncRole_orphan_delete_returns_delete_result_witness:
  "SplitMetaNamespaceKey scenarioC ''a/r1'' = Inr (''a'', ''r1'')
   \<and> rbacLister scenarioC ''a'' ''r1'' = Inr (derivedRole [R1])
   \<and> originLister scenarioC ''a'' ''r1'' = Inl (StatusError StatusReasonNotFound)
   \<and> fst (syncRole scenarioC ''a/r1'' (storeWith (derivedRole [R1]))) = None
   \<and> server (snd (syncRole scenarioC ''a/r1'' (storeWith (derivedRole [R1])))) ''a/r1'' = None
   \<and> actions (snd (syncRole scenarioC ''a/r1'' (storeWith (derivedRole [R1]))))
      = [DeleteAction ''a'' ''r1'']"
  using syncRole_orphan_delete_returns_delete_result
    [where c = scenarioC and key = "''a/r1''" and namespace = "''a''" and name = "''r1''"
      and rbacRole = "derivedRole [R1]" and w = "storeWith (derivedRole [R1])"]
  by (simp add: scenario_defs)

text \<open>
  C6 as stated fails where the informer's cache still lists the RBAC role and the store
  has lost it already: the delete answers NotFound and \<open>syncRole\<close> returns that error.
\<close>

theorem syncRole_orphan_delete_notfound_counterexample:
  "\<not> (rbacLister scenarioC ''a'' ''r1'' = Inr (derivedRole [R1])
      \<and> originLister scenarioC ''a'' ''r1'' = Inl (StatusError StatusReasonNotFound)
      \<and> IsNotFound (fst (Delete (rbacClient scenarioC) ''a'' ''r1'' (server emptyStore)))
      \<longrightarrow> fst (syncRole scenarioC ''a/r1'' emptyStore) = None)"
  by (simp add: scenario_defs sync_defs)

text \<open>
  C7, as amended. When the key does not parse, \<open>syncRole\<close> returns the parser's error
  to its caller, having looked nothing up and written nothing; it does not swallow the
  error, and whether the key is retried is the caller's decision on that error.
\<close>

theorem syncRole_bad_key_returns_error:
  assumes "SplitMetaNamespaceKey c key = Inl err"
  shows "syncRole c key w = (Some err, w)"
  using assms by (simp add: syncRole_def)

theorem syncRole_bad_key_returns_error_witness:
  "SplitMetaNamespaceKey scenarioA ''a/b/c'' = Inl (Errorf ''unexpected key format'')
   \<and> syncRole scenarioA ''a/b/c'' emptyStore
      = (Some (Errorf ''unexpected key format''), emptyStore)"
  using syncRole_bad_key_returns_error
    [where c = scenarioA and key = "''a/b/c''" and err = "Errorf ''unexpected key format''"
      and w = emptyStore]
  by (simp add: scenario_defs)

text \<open>
  C7 as stated fails at the key \<open>a/b/c\<close>: the parse error is the result of \<open>syncRole\<close>,
  not a success.
\<close>

theorem syncRole_bad_key_counterexample:
  "\<not> (SplitMetaNamespaceKey scenarioA ''a/b/c'' = Inl (Errorf ''unexpected key format'')
      \<longrightarrow> fst (syncRole scenarioA ''a/b/c'' emptyStore) = None)"
  by (simp add: scenario_defs sync_defs)

text \<open>
  C8, as amended. One call of \<open>syncRole\<close> issues at most one write, except when it
  returns an invalid-update error after an update followed by the delete of the same
  namespace and name: then the writes are exactly these two.
\<close>

theorem syncRole_writes_bounded:
  "\<exists>issued. actions (snd (syncRole c key w)) = actions w @ issued
     \<and> (length issued \<le> 1
        \<or> IsInvalid (fst (syncRole c key w))
          \<and> (\<exists>namespace name written.
                SplitMetaNamespaceKey c key = Inr (namespace, name)
              \<and> issued = [UpdateAction namespace written, DeleteAction namespace name]))"
  by (auto simp: sync_defs split: sum.splits prod.splits if_splits option.splits)

theorem syncRole_writes_bounded_witness:
  "actions (snd (syncRole scenarioE ''a/r1'' (storeWith (derivedRole [R1]))))
     = actions (storeWith (derivedRole [R1]))
       @ [UpdateAction ''a'' (derivedRole [noVerbs]), DeleteAction ''a'' ''r1'']
   \<and> IsInvalid (fst (syncRole scenarioE ''a/r1'' (storeWith (derivedRole [R1]))))
   \<and> (\<exists>issued. actions (snd (syncRole scenarioA ''a/r1'' emptyStore)) = actions emptyStore @ issued
        \<and> length issued \<le> 1)"
  using syncRole_writes_bounded
    [where c = scenarioE and key = "''a/r1''" and w = "storeWith (derivedRole [R1])"]
    syncRole_writes_bounded [where c = scenarioA and key = "''a/r1''" and w = emptyStore]
  by (simp add: scenario_defs sync_defs)

text \<open>
  C8 as stated fails in scenario E: the rejected update and the delete that follows it
  are two writes of one call.
\<close>

theorem syncRole_two_writes_counterexample:
  "\<not> length (actions (snd (syncRole scenarioE ''a/r1'' (storeWith (derivedRole [R1]))))) \<le> 1"
  by (simp add: scenario_defs sync_defs)

text \<open>
  C9. A delete notification whose object is neither a policy nor a tombstone that wraps
  one should be reported and skipped. \<open>DeleteFunc\<close> reports it, twice for an object that
  is no tombstone and once for a tombstone that wraps something else, but does not
  return after either report: it goes on to range over the roles of a \<open>nil\<close> policy
  pointer, and panics.
\<close>

theorem DeleteFunc_undecodable_panics:
  "DeleteFunc scenarioB (OtherObj ''pod'') (cacheWith (sourceRole [R1]))
     = Panic \<lparr>originIndexer = [''a/r1'' \<mapsto> sourceRole [R1]], queue = [],
              handled = [Errorf ''Couldn't get object from tombstone'',
                         Errorf ''Tombstone contained object that is not a runtime.Object'']\<rparr>
   \<and> DeleteFunc scenarioB (DeletedFinalStateUnknown ''a/default'' (OtherObj ''pod''))
        (cacheWith (sourceRole [R1]))
     = Panic \<lparr>originIndexer = [''a/r1'' \<mapsto> sourceRole [R1]], queue = [],
              handled = [Errorf ''Tombstone contained object that is not a runtime.Object'']\<rparr>"
  by (simp add: scenario_defs handler_defs)

text \<open>
  C10. When the origin role is present and the conversion, or the deep copy of the
  converted role, returns an error, \<open>syncRole\<close> returns that error and leaves the client
  as it was: no create, update or delete. The RBAC lookup has answered with a role or
  with NotFound, since any other answer has returned before the conversion is reached.
\<close>

theorem syncRole_conversion_error_no_write:
  assumes "SplitMetaNamespaceKey c key = Inr (namespace, name)"
    and "rbacLister c namespace name = Inr rbacRole
         \<or> rbacLister c namespace name = Inl (StatusError StatusReasonNotFound)"
    and "originLister c namespace name = Inr originRole"
    and "Convert_api_Role_To_rbac_Role c originRole = Inl err
         \<or> (Convert_api_Role_To_rbac_Role c originRole = Inr convertedRole
            \<and> cloner c convertedRole = Some err)"
  shows "syncRole c key w = (Some err, w)"
  using assms by (auto simp: sync_defs)

theorem syncRole_conversion_error_no_write_witness:
  "SplitMetaNamespaceKey (scenarioA\<lparr>Convert_api_Role_To_rbac_Role := failingConvert\<rparr>) ''a/r1''
      = Inr (''a'', ''r1'')
   \<and> rbacLister (scenarioA\<lparr>Convert_api_Role_To_rbac_Role := failingConvert\<rparr>) ''a'' ''r1''
      = Inl (StatusError StatusReasonNotFound)
   \<and> originLister (scenarioA\<lparr>Convert_api_Role_To_rbac_Role := failingConvert\<rparr>) ''a'' ''r1''
      = Inr (sourceRole [R1])
   \<and> Convert_api_Role_To_rbac_Role (scenarioA\<lparr>Convert_api_Role_To_rbac_Role := failingConvert\<rparr>)
        (sourceRole [R1]) = Inl (Errorf ''conversion failed'')
   \<and> syncRole (scenarioA\<lparr>Convert_api_Role_To_rbac_Role := failingConvert\<rparr>) ''a/r1'' emptyStore
      = (Some (Errorf ''conversion failed''), emptyStore)"
  using syncRole_conversion_error_no_write
    [where c = "scenarioA\<lparr>Convert_api_Role_To_rbac_Role := failingConvert\<rparr>"
      and key = "''a/r1''" and namespace = "''a''" and name = "''r1''"
      and originRole = "sourceRole [R1]" and err = "Errorf ''conversion failed''"
      and w = emptyStore]
  by (simp add: scenario_defs)

end
